theory Spec2Isabelle
  imports Complex_Main
begin

section \<open>The action list of the trace viewer (actionList.tsx)\<close>

text \<open>
  The component is a function of its props. It mutates nothing: what an event handler
  does is the sequence of calls it makes on the event, on DOM elements and on the host's
  callbacks. A handler is therefore a function to the list of those calls, in order.
\<close>

subsection \<open>Data\<close>

text \<open>
  An action is a JavaScript object; \<open>===\<close> and \<open>indexOf\<close> compare object identity. An
  action is modelled by its reference, and a store gives the object a reference points to,
  so that two objects with the same fields stay different.
\<close>

type_synonym ref = nat

text \<open>
  A time stamp is a JavaScript number, an IEEE 754 double: not a number, an infinity,
  the negative zero, or a finite value, given here by the rational it stands for
  (\<open>Finite 0\<close> is the positive zero). Every double is one of these values; not every
  rational is the value of a double. The component does two things with a time stamp:
  it tests it for truthiness, and it subtracts one from another. A number is falsy when
  it is not a number or a zero. The subtraction of doubles rounds its result; it is not
  computed here but taken as given, with the collaborators below.
\<close>

datatype js_number = NaN | PosInfinity | NegInfinity | NegZero | Finite rat

definition truthy_number :: "js_number \<Rightarrow> bool" where
  "truthy_number n = (n \<noteq> NaN \<and> n \<noteq> NegZero \<and> n \<noteq> Finite 0)"

text \<open>
  The declarations of the trace event are imported from \<open>@trace/trace\<close>; the fields are the
  ones the component reads. A field that may be undefined is an option. A count of errors
  or warnings is an integer.
\<close>

record ErrorDetails =
  message :: string

record SerializedError =
  error_details :: "ErrorDetails option"  \<comment> \<open>the field \<open>error\<close> of \<open>metadata.error\<close>\<close>

record Params =
  selector :: "string option"
  url :: "string option"

record CallMetadata =
  id_m :: string  \<comment> \<open>\<open>metadata.id\<close>\<close>
  apiName :: string
  method_m :: string  \<comment> \<open>\<open>metadata.method\<close>\<close>
  params :: Params
  startTime :: js_number
  endTime :: "js_number option"
  error :: "SerializedError option"

record ActionTraceEvent =
  metadata :: CallMetadata

type_synonym store = "ref \<Rightarrow> ActionTraceEvent"

text \<open>\<open>Language\<close> is a union of string literals, among them \<open>'javascript'\<close>.\<close>

type_synonym Language = string

record ActionListProps =
  actions :: "ref list"
  selectedAction :: "ref option"
  highlightedAction :: "ref option"
  sdkLanguage :: "Language option"

text \<open>
  A DOM element: its identity, and whether it has the non-standard method
  \<open>scrollIntoViewIfNeeded\<close>, which the helper detects at run time.
\<close>

record Element =
  element_id :: nat
  has_scrollIntoViewIfNeeded :: bool

record HTMLDivElement =
  children :: "Element list"

text \<open>An argument of type \<open>Element | null | undefined\<close>.\<close>

datatype element_arg = Undefined | Null | Elem Element

text \<open>The calls a handler makes.\<close>

datatype call =
    Call_stopPropagation
  | Call_preventDefault
  | Call_scrollIntoViewIfNeeded Element bool
  | Call_scrollIntoView Element
  | Call_onSelected "ref option"  \<comment> \<open>\<open>None\<close> is the argument \<open>undefined\<close>\<close>
  | Call_onHighlighted "ref option"
  | Call_setSelectedTab string

subsection \<open>The language and the platform\<close>

text \<open>
  Truthiness: a string is falsy when it is empty, a count when it is zero, and
  \<open>undefined\<close> and \<open>null\<close> are falsy; these tests are written out where the source makes
  them.
\<close>

text \<open>\<open>Array.prototype.indexOf\<close>: the first index holding the value, or \<open>-1\<close>.\<close>

fun indexOf_from :: "int \<Rightarrow> 'a list \<Rightarrow> 'a \<Rightarrow> int" where
  "indexOf_from k [] a = - 1"
| "indexOf_from k (x # xs) a = (if x = a then k else indexOf_from (k + 1) xs a)"

definition indexOf :: "'a list \<Rightarrow> 'a \<Rightarrow> int" where
  "indexOf xs a = indexOf_from 0 xs a"

text \<open>Reading \<open>xs[i]\<close>: \<open>undefined\<close> outside the array, no exception.\<close>

definition array_get :: "'a list \<Rightarrow> int \<Rightarrow> 'a option" where
  "array_get xs i = (if 0 \<le> i \<and> i < int (length xs) then Some (xs ! nat i) else None)"

text \<open>
  \<open>HTMLCollection.item\<close>: the index is converted to an unsigned 32-bit integer, and the
  result is \<open>null\<close> when there is no such child.
\<close>

definition item :: "Element list \<Rightarrow> int \<Rightarrow> element_arg" where
  "item es i =
     (let u = i mod 4294967296
      in if u < int (length es) then Elem (es ! nat u) else Null)"

subsection \<open>scrollIntoViewIfNeeded\<close>

definition scrollIntoViewIfNeeded :: "element_arg \<Rightarrow> call list" where
  "scrollIntoViewIfNeeded element =
     (case element of
        Undefined \<Rightarrow> []
      | Null \<Rightarrow> []
      | Elem e \<Rightarrow>
          if has_scrollIntoViewIfNeeded e then [Call_scrollIntoViewIfNeeded e False]
          else [Call_scrollIntoView e])"

text \<open>
  The helper once more, with the exceptions of the language written out, statement by
  statement. A member call \<open>x.m()\<close> throws a \<open>TypeError\<close> when \<open>x\<close> is \<open>undefined\<close> or
  \<open>null\<close> and when \<open>x\<close> has no method \<open>m\<close>; the optional forms \<open>x?.m\<close> and \<open>x?.m()\<close> give
  \<open>undefined\<close> for such an \<open>x\<close> and throw nothing; the scroll methods of an element do
  not throw.
\<close>

datatype js_error = TypeError

text \<open>\<open>!element\<close>\<close>

definition not_element :: "element_arg \<Rightarrow> bool" where
  "not_element element = (case element of Undefined \<Rightarrow> True | Null \<Rightarrow> True | Elem e \<Rightarrow> False)"

text \<open>\<open>(element as any)?.scrollIntoViewIfNeeded\<close>, tested for truthiness\<close>

definition optional_scrollIntoViewIfNeeded :: "element_arg \<Rightarrow> bool" where
  "optional_scrollIntoViewIfNeeded element =
     (case element of
        Undefined \<Rightarrow> False
      | Null \<Rightarrow> False
      | Elem e \<Rightarrow> has_scrollIntoViewIfNeeded e)"

text \<open>\<open>(element as any).scrollIntoViewIfNeeded(false)\<close>\<close>

definition member_call_scrollIntoViewIfNeeded :: "element_arg \<Rightarrow> bool \<Rightarrow> js_error + call list" where
  "member_call_scrollIntoViewIfNeeded element b =
     (case element of
        Undefined \<Rightarrow> Inl TypeError
      | Null \<Rightarrow> Inl TypeError
      | Elem e \<Rightarrow>
          if has_scrollIntoViewIfNeeded e then Inr [Call_scrollIntoViewIfNeeded e b]
          else Inl TypeError)"

text \<open>\<open>element?.scrollIntoView()\<close>\<close>

definition optional_call_scrollIntoView :: "element_arg \<Rightarrow> js_error + call list" where
  "optional_call_scrollIntoView element =
     (case element of
        Undefined \<Rightarrow> Inr []
      | Null \<Rightarrow> Inr []
      | Elem e \<Rightarrow> Inr [Call_scrollIntoView e])"

definition scrollIntoViewIfNeeded_outcome :: "element_arg \<Rightarrow> js_error + call list" where
  "scrollIntoViewIfNeeded_outcome element =
     (if not_element element then Inr []
      else if optional_scrollIntoViewIfNeeded element
      then member_call_scrollIntoViewIfNeeded element False
      else optional_call_scrollIntoView element)"

subsection \<open>ActionList: the key-down handler\<close>

text \<open>
  The handler of the list's content element. \<open>current\<close> is \<open>actionListRef.current\<close>, the
  content element once mounted, and \<open>key\<close> is \<open>event.key\<close>.
\<close>

definition onKeyDown :: "ActionListProps \<Rightarrow> HTMLDivElement option \<Rightarrow> string \<Rightarrow> call list" where
  "onKeyDown props current key =
     (if key \<noteq> ''ArrowDown'' \<and> key \<noteq> ''ArrowUp'' then []
      else
        let index = (case selectedAction props of
                       Some a \<Rightarrow> indexOf (actions props) a
                     | None \<Rightarrow> - 1);
            len = int (length (actions props));
            newIndex0 = index;
            newIndex1 = (if key = ''ArrowDown''
                         then (if index = - 1 then 0 else min (index + 1) (len - 1))
                         else newIndex0);
            newIndex = (if key = ''ArrowUp''
                        then (if index = - 1 then len - 1 else max (index - 1) 0)
                        else newIndex1);
            element = (case current of
                         None \<Rightarrow> Undefined
                       | Some d \<Rightarrow> item (children d) newIndex)
        in [Call_stopPropagation, Call_preventDefault]
           @ scrollIntoViewIfNeeded element
           @ [Call_onSelected (array_get (actions props) newIndex)])"

subsection \<open>Rendered trees\<close>

text \<open>
  What a component returns: an element with its tag, its class name, its other attributes,
  its event handlers and its children; a text; or a number, which React shows in decimal.
  The handlers of a row take no argument, so a handler is the list of calls it makes.
  A child written \<open>{c && <div/>}\<close> is absent when \<open>c\<close> is falsy.
\<close>

datatype vnode =
    Node string string "(string \<times> string) list" "(string \<times> call list) list" "vnode list"
  | Text string
  | Number int

text \<open>
  The collaborators: \<open>msToString\<close>, \<open>asLocator\<close> and \<open>modelUtil.stats\<close>; and with them
  \<open>number_minus\<close>, the subtraction of two numbers as the language computes it.
\<close>

record Stats =
  errors :: int
  warnings :: int

record env =
  msToString :: "js_number \<Rightarrow> string"
  number_minus :: "js_number \<Rightarrow> js_number \<Rightarrow> js_number"
  asLocator :: "Language \<Rightarrow> string \<Rightarrow> string"
  stats :: "ActionTraceEvent \<Rightarrow> Stats"

subsection \<open>ActionListItem\<close>

text \<open>
  The row of one action, assembled from its parts in the order of the source: the constants
  computed before the \<open>return\<close>, then the elements of the returned tree, each under the
  name of its class.
\<close>

text \<open>\<open>metadata.error?.error?.message\<close>\<close>

definition error_message :: "CallMetadata \<Rightarrow> string option" where
  "error_message md =
     (case error md of
        None \<Rightarrow> None
      | Some se \<Rightarrow> (case error_details se of None \<Rightarrow> None | Some d \<Rightarrow> Some (message d)))"

text \<open>
  \<open>metadata.params.selector ? asLocator(sdkLanguage || 'javascript', metadata.params.selector)
  : undefined\<close>
\<close>

definition locator :: "env \<Rightarrow> CallMetadata \<Rightarrow> Language option \<Rightarrow> string option" where
  "locator env md language =
     (case selector (params md) of
        None \<Rightarrow> None
      | Some sel \<Rightarrow>
          if sel \<noteq> []
          then Some (asLocator env
                       (case language of
                          None \<Rightarrow> ''javascript''
                        | Some l \<Rightarrow> if l \<noteq> [] then l else ''javascript'')
                       sel)
          else None)"

definition action_title :: "env \<Rightarrow> CallMetadata \<Rightarrow> Language option \<Rightarrow> vnode" where
  "action_title env md language =
     Node ''div'' ''action-title'' [] []
       ([Node ''span'' '''' [] [] [Text (apiName md)]]
        @ (case locator env md language of
             None \<Rightarrow> []
           | Some l \<Rightarrow>
               if l \<noteq> [] then [Node ''div'' ''action-selector'' [(''title'', l)] [] [Text l]]
               else [])
        @ (if method_m md = ''goto''
           then (case url (params md) of
                   None \<Rightarrow> []
                 | Some u \<Rightarrow>
                     if u \<noteq> [] then [Node ''div'' ''action-url'' [(''title'', u)] [] [Text u]]
                     else [])
           else []))"

definition action_duration :: "env \<Rightarrow> CallMetadata \<Rightarrow> vnode" where
  "action_duration env md =
     Node ''div'' ''action-duration'' [(''style'', ''flex: none'')] []
       [Text (case endTime md of
                None \<Rightarrow> ''Timed Out''
              | Some e \<Rightarrow>
                  if truthy_number e then msToString env (number_minus env e (startTime md))
                  else ''Timed Out'')]"

definition action_icons :: "Stats \<Rightarrow> vnode" where
  "action_icons s =
     Node ''div'' ''action-icons'' [] [(''onClick'', [Call_setSelectedTab ''console''])]
       ((if errors s \<noteq> 0
         then [Node ''div'' ''action-icon'' [] []
                 [Node ''span'' ''codicon codicon-error'' [] [] [],
                  Node ''span'' ''action-icon-value'' [] [] [Number (errors s)]]]
         else [])
        @ (if warnings s \<noteq> 0
           then [Node ''div'' ''action-icon'' [] []
                   [Node ''span'' ''codicon codicon-warning'' [] [] [],
                    Node ''span'' ''action-icon-value'' [] [] [Number (warnings s)]]]
           else []))"

text \<open>\<open>{error && <div className='codicon codicon-issues' title={error} />}\<close>\<close>

definition error_indicator :: "CallMetadata \<Rightarrow> vnode list" where
  "error_indicator md =
     (case error_message md of
        None \<Rightarrow> []
      | Some m \<Rightarrow>
          if m \<noteq> [] then [Node ''div'' ''codicon codicon-issues'' [(''title'', m)] [] []]
          else [])"

definition ActionListItem ::
  "env \<Rightarrow> store \<Rightarrow> ref \<Rightarrow> ref option \<Rightarrow> ref option \<Rightarrow> Language option \<Rightarrow> vnode" where
  "ActionListItem env st action highlighted selected language =
     (let md = metadata (st action);
          selectedSuffix = (if Some action = selected then '' selected'' else '''');
          highlightedSuffix = (if Some action = highlighted then '' highlighted'' else '''')
      in Node ''div'' (''action-entry'' @ selectedSuffix @ highlightedSuffix)
           [(''key'', id_m md)]
           [(''onClick'', [Call_onSelected (Some action)]),
            (''onMouseEnter'', [Call_onHighlighted (Some action)]),
            (''onMouseLeave'',
               if highlighted = Some action then [Call_onHighlighted None] else [])]
           ([action_title env md language,
             action_duration env md,
             action_icons (stats env (st action))]
            @ error_indicator md))"

subsection \<open>ActionList\<close>

text \<open>
  The tree of the list. The key-down handler of the content element takes the event and
  is \<open>onKeyDown\<close> above; no click or pointer handler is attached above the rows. The
  effects that run after a render (the list takes the focus; a row that became the
  selected one scrolls itself into view) are no event handlers and are left out.
\<close>

definition ActionList :: "env \<Rightarrow> store \<Rightarrow> ActionListProps \<Rightarrow> vnode" where
  "ActionList env st props =
     Node ''div'' ''action-list vbox'' [] []
       [Node ''div'' ''action-list-content'' [(''tabIndex'', ''0'')] []
          ((if length (actions props) = 0
            then [Node ''div'' ''no-actions-entry'' [] [] [Text ''No actions recorded'']]
            else [])
           @ map (\<lambda>action. ActionListItem env st action (highlightedAction props)
                              (selectedAction props) (sdkLanguage props))
               (actions props))]"

subsection \<open>Events on a rendered tree\<close>

definition handler :: "string \<Rightarrow> vnode \<Rightarrow> call list" where
  "handler name v =
     (case v of
        Node t c as hs cs \<Rightarrow> (case map_of hs name of None \<Rightarrow> [] | Some calls \<Rightarrow> calls)
      | Text s \<Rightarrow> []
      | Number n \<Rightarrow> [])"

text \<open>
  A click bubbles: the \<open>onClick\<close> handler of the target runs, then the one of each
  ancestor, innermost first, unless a handler stops the propagation, which no click
  handler of these components does. The target is given by the path of child positions
  leading to it from the root.
\<close>

fun click :: "vnode \<Rightarrow> nat list \<Rightarrow> call list" where
  "click v [] = handler ''onClick'' v"
| "click (Node t c as hs cs) (i # p) =
     (if i < length cs then click (cs ! i) p else []) @ handler ''onClick'' (Node t c as hs cs)"
| "click (Text s) (i # p) = []"
| "click (Number n) (i # p) = []"

text \<open>The elements of a tree with a given class name, in document order.\<close>

fun by_class :: "string \<Rightarrow> vnode \<Rightarrow> vnode list" where
  "by_class c (Node t cl as hs cs) =
     (if cl = c then [Node t cl as hs cs] else []) @ concat (map (by_class c) cs)"
| "by_class c (Text s) = []"
| "by_class c (Number n) = []"

text \<open>The children of an element.\<close>

fun child_nodes :: "vnode \<Rightarrow> vnode list" where
  "child_nodes (Node t c as hs cs) = cs"
| "child_nodes (Text s) = []"
| "child_nodes (Number n) = []"

subsection \<open>The specification's words\<close>

text \<open>
  The current index as the specification describes it: \<open>-1\<close> when nothing is selected, the
  position of the selected item otherwise, which is the first place where it occurs.
\<close>

definition spec_current_index :: "'a list \<Rightarrow> 'a option \<Rightarrow> int \<Rightarrow> bool" where
  "spec_current_index S sel i =
     (case sel of
        None \<Rightarrow> i = - 1
      | Some a \<Rightarrow> 0 \<le> i \<and> i < int (length S) \<and> S ! nat i = a \<and> a \<notin> set (take (nat i) S))"

text \<open>
  A badge as the specification describes it: omitted when the count is zero, and otherwise
  one icon of the given kind followed by the count.
\<close>

definition spec_badge :: "string \<Rightarrow> int \<Rightarrow> vnode list" where
  "spec_badge icon n =
     (if n = 0 then []
      else [Node ''div'' ''action-icon'' [] []
              [Node ''span'' icon [] [] [],
               Node ''span'' ''action-icon-value'' [] [] [Number n]]])"

text \<open>
  The locator as the specification describes it: the generator applied to the language
  supplied, or to the fallback language when none is, and to the selector.
\<close>

definition spec_locator :: "env \<Rightarrow> Language option \<Rightarrow> string \<Rightarrow> string" where
  "spec_locator env language sel =
     asLocator env (case language of None \<Rightarrow> ''javascript'' | Some l \<Rightarrow> l) sel"

subsection \<open>Example data\<close>

text \<open>
  Three recorded actions: a navigation that ended, a click on \<open>button.submit\<close> that never
  ended and carries an error, and an action whose selector is the empty string and whose
  end time is \<open>0\<close>. The example formatter and the example subtraction are defined on the
  whole of the numbers; on the time stamps of the examples, which are small integers,
  the subtraction of doubles is exact.
\<close>

definition example_store :: store where
  "example_store r =
     (if r = 0 then
        \<lparr>metadata = \<lparr>id_m = ''call@1'', apiName = ''page.goto'', method_m = ''goto'',
           params = \<lparr>selector = None, url = Some ''https://example.com''\<rparr>,
           startTime = Finite 0, endTime = Some (Finite 100), error = None\<rparr>\<rparr>
      else if r = 1 then
        \<lparr>metadata = \<lparr>id_m = ''call@2'', apiName = ''locator.click'', method_m = ''click'',
           params = \<lparr>selector = Some ''button.submit'', url = None\<rparr>,
           startTime = Finite 100, endTime = None,
           error = Some \<lparr>error_details = Some \<lparr>message = ''Timeout exceeded''\<rparr>\<rparr>\<rparr>\<rparr>
      else
        \<lparr>metadata = \<lparr>id_m = ''call@3'', apiName = ''page.fill'', method_m = ''fill'',
           params = \<lparr>selector = Some '''', url = None\<rparr>,
           startTime = Finite 0, endTime = Some (Finite 0), error = None\<rparr>\<rparr>)"

definition example_msToString :: "js_number \<Rightarrow> string" where
  "example_msToString ms =
     (case ms of
        Finite q \<Rightarrow> if q = 0 then ''0'' else if q < 1000 then ''under 1s'' else ''1s or more''
      | NegZero \<Rightarrow> ''0''
      | NaN \<Rightarrow> ''-''
      | PosInfinity \<Rightarrow> ''-''
      | NegInfinity \<Rightarrow> ''-'')"

definition example_minus :: "js_number \<Rightarrow> js_number \<Rightarrow> js_number" where
  "example_minus a b =
     (case a of
        Finite x \<Rightarrow> (case b of Finite y \<Rightarrow> Finite (x - y) | NegZero \<Rightarrow> Finite x | _ \<Rightarrow> NaN)
      | _ \<Rightarrow> NaN)"

definition example_asLocator :: "Language \<Rightarrow> string \<Rightarrow> string" where
  "example_asLocator lang sel = lang @ '': '' @ sel"

definition example_stats :: "ActionTraceEvent \<Rightarrow> Stats" where
  "example_stats a =
     \<lparr>errors = (case error (metadata a) of None \<Rightarrow> 0 | Some e \<Rightarrow> 1),
      warnings = (if method_m (metadata a) = ''goto'' then 2 else 0)\<rparr>"

definition example_env :: env where
  "example_env =
     \<lparr>msToString = example_msToString, number_minus = example_minus,
      asLocator = example_asLocator, stats = example_stats\<rparr>"

definition example_props :: ActionListProps where
  "example_props =
     \<lparr>actions = [0, 1], selectedAction = Some 0, highlightedAction = Some 1,
      sdkLanguage = Some ''python''\<rparr>"

definition example_row :: "nat \<Rightarrow> Element" where
  "example_row k = \<lparr>element_id = k, has_scrollIntoViewIfNeeded = True\<rparr>"

definition example_content :: HTMLDivElement where
  "example_content = \<lparr>children = [example_row 0, example_row 1]\<rparr>"

section \<open>Properties\<close>

subsection \<open>indexOf and the current index\<close>

lemma indexOf_from_absent: "a \<notin> set xs \<Longrightarrow> indexOf_from k xs a = - 1"
  by (induction xs arbitrary: k) auto

lemma indexOf_from_first:
  "n < length xs \<Longrightarrow> xs ! n = a \<Longrightarrow> a \<notin> set (take n xs) \<Longrightarrow> indexOf_from k xs a = k + int n"
proof (induction xs arbitrary: k n)
  case Nil
  then show ?case by simp
next
  case (Cons x xs)
  show ?case
  proof (cases n)
    case 0
    with Cons.prems show ?thesis by simp
  next
    case (Suc m)
    with Cons.prems have "x \<noteq> a" "m < length xs" "xs ! m = a" "a \<notin> set (take m xs)"
      by auto
    with Cons.IH [of m "k + 1"] Suc show ?thesis by simp
  qed
qed

lemma indexOf_absent: "a \<notin> set xs \<Longrightarrow> indexOf xs a = - 1"
  by (simp add: indexOf_def indexOf_from_absent)

lemma index_of_selected:
  assumes "spec_current_index S sel i"
  shows "(case sel of Some a \<Rightarrow> indexOf S a | None \<Rightarrow> - 1) = i"
proof (cases sel)
  case None
  with assms show ?thesis by (simp add: spec_current_index_def)
next
  case (Some a)
  with assms have "nat i < length S" "S ! nat i = a" "a \<notin> set (take (nat i) S)" "0 \<le> i"
    by (auto simp: spec_current_index_def)
  then have "indexOf_from 0 S a = 0 + int (nat i)"
    by (intro indexOf_from_first)
  with \<open>0 \<le> i\<close> Some show ?thesis by (simp add: indexOf_def)
qed

text \<open>
  In a sequence without repetition every index from \<open>0\<close> to the length is the current
  index of some selection, and \<open>-1\<close> is the current index of the empty selection.
\<close>

lemma every_index_is_current:
  assumes "distinct S" and "0 \<le> i" and "i < int (length S)"
  shows "spec_current_index S (Some (S ! nat i)) i"
proof -
  from assms have "nat i < length S" by simp
  with assms(1) have "S ! nat i \<notin> set (take (nat i) S)"
    by (auto simp: in_set_conv_nth nth_eq_iff_index_eq)
  with assms show ?thesis by (simp add: spec_current_index_def)
qed

text \<open>The handler once the index of the selection is known.\<close>

lemma onKeyDown_ArrowDown:
  assumes "(case selectedAction props of Some a \<Rightarrow> indexOf (actions props) a | None \<Rightarrow> - 1) = i"
  shows "onKeyDown props current ''ArrowDown'' =
           [Call_stopPropagation, Call_preventDefault]
           @ scrollIntoViewIfNeeded
               (case current of
                  None \<Rightarrow> Undefined
                | Some d \<Rightarrow> item (children d)
                    (if i = - 1 then 0 else min (i + 1) (int (length (actions props)) - 1)))
           @ [Call_onSelected (array_get (actions props)
                (if i = - 1 then 0 else min (i + 1) (int (length (actions props)) - 1)))]"
  unfolding onKeyDown_def assms Let_def by simp

lemma onKeyDown_ArrowUp:
  assumes "(case selectedAction props of Some a \<Rightarrow> indexOf (actions props) a | None \<Rightarrow> - 1) = i"
  shows "onKeyDown props current ''ArrowUp'' =
           [Call_stopPropagation, Call_preventDefault]
           @ scrollIntoViewIfNeeded
               (case current of
                  None \<Rightarrow> Undefined
                | Some d \<Rightarrow> item (children d)
                    (if i = - 1 then int (length (actions props)) - 1 else max (i - 1) 0))
           @ [Call_onSelected (array_get (actions props)
                (if i = - 1 then int (length (actions props)) - 1 else max (i - 1) 0))]"
  unfolding onKeyDown_def assms Let_def by simp

lemma array_get_in_range: "0 \<le> i \<Longrightarrow> i < int (length xs) \<Longrightarrow> array_get xs i = Some (xs ! nat i)"
  by (simp add: array_get_def)

lemma index_unselected:
  assumes "case sel of None \<Rightarrow> True | Some a \<Rightarrow> a \<notin> set S"
  shows "(case sel of Some a \<Rightarrow> indexOf S a | None \<Rightarrow> - 1) = - 1"
  using assms by (cases sel) (simp_all add: indexOf_absent)

subsection \<open>Keyboard navigation\<close>

text \<open>
  C1. The claim: on an empty sequence ArrowDown and ArrowUp do nothing. The handler has no
  test for the empty sequence. Whatever is selected, the index is \<open>-1\<close>, the new index is
  \<open>0\<close> for ArrowDown and \<open>-1\<close> for ArrowUp, the read outside the array gives \<open>undefined\<close>,
  and \<open>onSelected\<close> is called with it, after the child of the content element at the new
  index, if there is one, was scrolled to.
\<close>

theorem empty_sequence_calls_onSelected:
  "onKeyDown (props\<lparr>actions := []\<rparr>) current ''ArrowDown'' =
     [Call_stopPropagation, Call_preventDefault]
     @ scrollIntoViewIfNeeded
         (case current of None \<Rightarrow> Undefined | Some d \<Rightarrow> item (children d) 0)
     @ [Call_onSelected None]
   \<and> onKeyDown (props\<lparr>actions := []\<rparr>) current ''ArrowUp'' =
     [Call_stopPropagation, Call_preventDefault]
     @ scrollIntoViewIfNeeded
         (case current of None \<Rightarrow> Undefined | Some d \<Rightarrow> item (children d) (- 1))
     @ [Call_onSelected None]"
proof -
  have idx: "(case selectedAction (props\<lparr>actions := []\<rparr>) of
                Some a \<Rightarrow> indexOf (actions (props\<lparr>actions := []\<rparr>)) a
              | None \<Rightarrow> - 1) = - 1"
    by (simp add: indexOf_def split: option.splits)
  show ?thesis
    using onKeyDown_ArrowDown [OF idx, of current] onKeyDown_ArrowUp [OF idx, of current]
    by (simp add: array_get_def cong: option.case_cong)
qed

text \<open>
  C2. On a sequence that is not empty, with \<open>i\<close> the current index (\<open>-1\<close> when nothing is
  selected, the position of the selected item otherwise), \<open>i\<close> lies between \<open>-1\<close> and the
  length, ArrowDown computes the new index \<open>0\<close> when \<open>i = -1\<close> and \<open>min (i + 1) (length - 1)\<close>
  otherwise, the new index is inside the sequence, and the handler consumes the event,
  scrolls to the child at the new index and calls \<open>onSelected\<close> once, with the item at
  the new index.
\<close>

theorem arrow_down_new_index:
  assumes "actions props \<noteq> []"
    and "spec_current_index (actions props) (selectedAction props) i"
    and "n = (if i = - 1 then 0 else min (i + 1) (int (length (actions props)) - 1))"
  shows "- 1 \<le> i \<and> i < int (length (actions props)) \<and>
         0 \<le> n \<and> n < int (length (actions props)) \<and>
         onKeyDown props current ''ArrowDown'' =
           [Call_stopPropagation, Call_preventDefault]
           @ scrollIntoViewIfNeeded
               (case current of None \<Rightarrow> Undefined | Some d \<Rightarrow> item (children d) n)
           @ [Call_onSelected (Some (actions props ! nat n))]"
proof -
  have len: "0 < int (length (actions props))"
    using assms(1) by simp
  have i: "- 1 \<le> i \<and> i < int (length (actions props))"
    using assms(2) len by (auto simp: spec_current_index_def split: option.splits)
  have n: "0 \<le> n \<and> n < int (length (actions props))"
    using i len assms(3) by auto
  have "onKeyDown props current ''ArrowDown'' =
           [Call_stopPropagation, Call_preventDefault]
           @ scrollIntoViewIfNeeded
               (case current of None \<Rightarrow> Undefined | Some d \<Rightarrow> item (children d) n)
           @ [Call_onSelected (array_get (actions props) n)]"
    unfolding assms(3) using assms(2) by (intro onKeyDown_ArrowDown index_of_selected)
  with i n show ?thesis by (simp add: array_get_in_range)
qed

theorem arrow_down_new_index_witness:
  "actions example_props \<noteq> []
   \<and> spec_current_index (actions example_props) (selectedAction example_props) 0
   \<and> onKeyDown example_props (Some example_content) ''ArrowDown'' =
       [Call_stopPropagation, Call_preventDefault,
        Call_scrollIntoViewIfNeeded (example_row 1) False, Call_onSelected (Some 1)]"
proof -
  have a: "actions example_props \<noteq> []"
    by (simp add: example_props_def)
  have b: "spec_current_index (actions example_props) (selectedAction example_props) 0"
    by (simp add: example_props_def spec_current_index_def)
  have c: "(1::int) = (if (0::int) = - 1 then 0 else min (0 + 1) (int (length (actions example_props)) - 1))"
    by (simp add: example_props_def)
  show ?thesis
    using a b arrow_down_new_index [OF a b c, of "Some example_content"]
    by (simp add: example_props_def example_content_def example_row_def item_def
        scrollIntoViewIfNeeded_def)
qed

text \<open>
  C3. On a sequence that is not empty, with \<open>i\<close> the current index, ArrowUp computes the new
  index \<open>length - 1\<close> when \<open>i = -1\<close> and \<open>max (i - 1) 0\<close> otherwise, the new index is inside the
  sequence, and the handler consumes the event, scrolls to the child at the new index and
  calls \<open>onSelected\<close> once, with the item at the new index. With one item and nothing
  selected that item is the one passed.
\<close>

theorem arrow_up_new_index:
  assumes "actions props \<noteq> []"
    and "spec_current_index (actions props) (selectedAction props) i"
    and "n = (if i = - 1 then int (length (actions props)) - 1 else max (i - 1) 0)"
  shows "- 1 \<le> i \<and> i < int (length (actions props)) \<and>
         0 \<le> n \<and> n < int (length (actions props)) \<and>
         onKeyDown props current ''ArrowUp'' =
           [Call_stopPropagation, Call_preventDefault]
           @ scrollIntoViewIfNeeded
               (case current of None \<Rightarrow> Undefined | Some d \<Rightarrow> item (children d) n)
           @ [Call_onSelected (Some (actions props ! nat n))]"
proof -
  have len: "0 < int (length (actions props))"
    using assms(1) by simp
  have i: "- 1 \<le> i \<and> i < int (length (actions props))"
    using assms(2) len by (auto simp: spec_current_index_def split: option.splits)
  have n: "0 \<le> n \<and> n < int (length (actions props))"
    using i len assms(3) by auto
  have "onKeyDown props current ''ArrowUp'' =
           [Call_stopPropagation, Call_preventDefault]
           @ scrollIntoViewIfNeeded
               (case current of None \<Rightarrow> Undefined | Some d \<Rightarrow> item (children d) n)
           @ [Call_onSelected (array_get (actions props) n)]"
    unfolding assms(3) using assms(2) by (intro onKeyDown_ArrowUp index_of_selected)
  with i n show ?thesis by (simp add: array_get_in_range)
qed

theorem arrow_up_new_index_witness:
  "actions (example_props\<lparr>actions := [1], selectedAction := None\<rparr>) \<noteq> []
   \<and> spec_current_index [1::nat] None (- 1)
   \<and> onKeyDown (example_props\<lparr>actions := [1], selectedAction := None\<rparr>) None ''ArrowUp'' =
       [Call_stopPropagation, Call_preventDefault, Call_onSelected (Some 1)]"
proof -
  let ?p = "example_props\<lparr>actions := [1], selectedAction := None\<rparr>"
  have a: "actions ?p \<noteq> []"
    by simp
  have b: "spec_current_index (actions ?p) (selectedAction ?p) (- 1)"
    by (simp add: spec_current_index_def)
  have c: "(0::int) = (if (- 1::int) = - 1 then int (length (actions ?p)) - 1 else max (- 1 - 1) 0)"
    by simp
  show ?thesis
    using a b arrow_up_new_index [OF a b c, of None]
    by (simp add: scrollIntoViewIfNeeded_def)
qed

text \<open>
  C9. On a sequence that is not empty, when nothing is selected or the selected item is
  not in the sequence, ArrowDown calls \<open>onSelected\<close> with the first item and ArrowUp with
  the last one, each after scrolling to the child at that index.
\<close>

theorem unselected_navigation:
  assumes "actions props \<noteq> []"
    and "case selectedAction props of None \<Rightarrow> True | Some a \<Rightarrow> a \<notin> set (actions props)"
  shows "onKeyDown props current ''ArrowDown'' =
           [Call_stopPropagation, Call_preventDefault]
           @ scrollIntoViewIfNeeded
               (case current of None \<Rightarrow> Undefined | Some d \<Rightarrow> item (children d) 0)
           @ [Call_onSelected (Some (hd (actions props)))]
         \<and> onKeyDown props current ''ArrowUp'' =
           [Call_stopPropagation, Call_preventDefault]
           @ scrollIntoViewIfNeeded
               (case current of
                  None \<Rightarrow> Undefined
                | Some d \<Rightarrow> item (children d) (int (length (actions props)) - 1))
           @ [Call_onSelected (Some (last (actions props)))]"
proof -
  have idx: "(case selectedAction props of Some a \<Rightarrow> indexOf (actions props) a | None \<Rightarrow> - 1) = - 1"
    using assms(2) by (rule index_unselected)
  have first: "array_get (actions props) 0 = Some (hd (actions props))"
    using assms(1) by (simp add: array_get_def hd_conv_nth)
  have "nat (int (length (actions props)) - 1) = length (actions props) - 1"
    by simp
  then have final: "array_get (actions props) (int (length (actions props)) - 1)
                      = Some (last (actions props))"
    using assms(1) by (simp add: array_get_def last_conv_nth)
  show ?thesis
    using onKeyDown_ArrowDown [OF idx, of current] onKeyDown_ArrowUp [OF idx, of current]
    by (simp add: first final)
qed

theorem unselected_navigation_witness:
  "actions (example_props\<lparr>selectedAction := Some 2\<rparr>) \<noteq> []
   \<and> 2 \<notin> set (actions (example_props\<lparr>selectedAction := Some 2\<rparr>))
   \<and> onKeyDown (example_props\<lparr>selectedAction := Some 2\<rparr>) (Some example_content) ''ArrowDown'' =
       [Call_stopPropagation, Call_preventDefault,
        Call_scrollIntoViewIfNeeded (example_row 0) False, Call_onSelected (Some 0)]
   \<and> onKeyDown (example_props\<lparr>selectedAction := Some 2\<rparr>) (Some example_content) ''ArrowUp'' =
       [Call_stopPropagation, Call_preventDefault,
        Call_scrollIntoViewIfNeeded (example_row 1) False, Call_onSelected (Some 1)]"
proof -
  let ?p = "example_props\<lparr>selectedAction := Some 2\<rparr>"
  have a: "actions ?p \<noteq> []"
    by (simp add: example_props_def)
  have b: "case selectedAction ?p of None \<Rightarrow> True | Some a \<Rightarrow> a \<notin> set (actions ?p)"
    by (simp add: example_props_def)
  show ?thesis
    using a unselected_navigation [OF a b, of "Some example_content"]
    by (simp add: example_props_def example_content_def example_row_def item_def
        scrollIntoViewIfNeeded_def)
qed

subsection \<open>The scroll helper\<close>

text \<open>
  C10, as the code has it. The helper returns for every argument and throws nothing: its
  outcome with the exceptions written out is the list of calls of \<open>scrollIntoViewIfNeeded\<close>.
  It makes no call exactly when the argument is \<open>undefined\<close> or \<open>null\<close>; for an element it
  makes one scroll call, \<open>scrollIntoViewIfNeeded(false)\<close> when the element has that method
  and \<open>scrollIntoView()\<close> otherwise. A lookup among the children \<open>es\<close> of the list at an
  index \<open>i\<close> leads to no call exactly when it finds no child, that is when the index,
  taken as an unsigned 32-bit integer, is not below the number of children.
\<close>

theorem scroll_helper:
  "scrollIntoViewIfNeeded_outcome x = Inr (scrollIntoViewIfNeeded x)
   \<and> (scrollIntoViewIfNeeded x = []) = (x = Undefined \<or> x = Null)
   \<and> scrollIntoViewIfNeeded (Elem e) =
       [if has_scrollIntoViewIfNeeded e then Call_scrollIntoViewIfNeeded e False
        else Call_scrollIntoView e]
   \<and> (scrollIntoViewIfNeeded (item es i) = []) = (int (length es) \<le> i mod 4294967296)"
proof -
  have "scrollIntoViewIfNeeded_outcome x = Inr (scrollIntoViewIfNeeded x)"
    by (cases x)
       (simp_all add: scrollIntoViewIfNeeded_outcome_def scrollIntoViewIfNeeded_def
          not_element_def optional_scrollIntoViewIfNeeded_def
          member_call_scrollIntoViewIfNeeded_def optional_call_scrollIntoView_def)
  moreover have "(scrollIntoViewIfNeeded x = []) = (x = Undefined \<or> x = Null)"
    by (cases x) (simp_all add: scrollIntoViewIfNeeded_def)
  moreover have "scrollIntoViewIfNeeded (Elem e) =
       [if has_scrollIntoViewIfNeeded e then Call_scrollIntoViewIfNeeded e False
        else Call_scrollIntoView e]"
    by (simp add: scrollIntoViewIfNeeded_def)
  moreover have "(scrollIntoViewIfNeeded (item es i) = []) = (int (length es) \<le> i mod 4294967296)"
    by (simp add: scrollIntoViewIfNeeded_def item_def Let_def not_less)
  ultimately show ?thesis by simp
qed

text \<open>
  Among the two children of the example content the lookup at the index \<open>-1\<close>, the one
  ArrowUp computes on an empty sequence, finds no child; the helper then makes no call
  and throws nothing.
\<close>

theorem scroll_helper_witness:
  "item (children example_content) (- 1) = Null
   \<and> scrollIntoViewIfNeeded_outcome (item (children example_content) (- 1)) = Inr []"
  using scroll_helper [of "item (children example_content) (- 1)" "example_row 0"
      "children example_content" "- 1"]
  by (simp add: example_content_def item_def)

text \<open>
  The claim of C10 as written, that the helper performs no scroll action for every
  argument, fails for an element: the first row of the example content is scrolled to.
\<close>

theorem scroll_helper_counterexample:
  "scrollIntoViewIfNeeded (Elem (example_row 0)) =
     [Call_scrollIntoViewIfNeeded (example_row 0) False]
   \<and> scrollIntoViewIfNeeded (item (children example_content) 0) =
     [Call_scrollIntoViewIfNeeded (example_row 0) False]"
  by (simp add: scrollIntoViewIfNeeded_def example_row_def example_content_def item_def)

subsection \<open>The rows\<close>

text \<open>The class name of a row starts with \<open>action-entry\<close> and is no class name of its parts.\<close>

lemma row_class_name:
  "''action-entry'' @ (if Some action = selected then '' selected'' else '''')
     @ (if Some action = highlighted then '' highlighted'' else '''')
   \<notin> {''action-icon'', ''action-icons'', ''action-duration'', ''action-selector'',
       ''codicon codicon-error'', ''codicon codicon-warning''}"
  by simp

text \<open>Where the elements of the classes of interest are, part by part.\<close>

lemma by_class_action_title:
  "by_class ''action-icon'' (action_title env md language) = []"
  "by_class ''action-icons'' (action_title env md language) = []"
  "by_class ''action-duration'' (action_title env md language) = []"
  "by_class ''codicon codicon-error'' (action_title env md language) = []"
  "by_class ''codicon codicon-warning'' (action_title env md language) = []"
  by (simp_all add: action_title_def del: concat_eq_Nil_conv split: option.splits)

lemma by_class_action_duration:
  "by_class ''action-icon'' (action_duration env md) = []"
  "by_class ''action-icons'' (action_duration env md) = []"
  "by_class ''action-duration'' (action_duration env md) = [action_duration env md]"
  "by_class ''action-selector'' (action_duration env md) = []"
  "by_class ''codicon codicon-error'' (action_duration env md) = []"
  "by_class ''codicon codicon-warning'' (action_duration env md) = []"
  by (simp_all add: action_duration_def)

lemma by_class_action_icons:
  "by_class ''action-icon'' (action_icons s) =
     spec_badge ''codicon codicon-error'' (errors s)
     @ spec_badge ''codicon codicon-warning'' (warnings s)"
  "by_class ''action-icons'' (action_icons s) = [action_icons s]"
  "by_class ''action-duration'' (action_icons s) = []"
  "by_class ''action-selector'' (action_icons s) = []"
  "(by_class ''codicon codicon-error'' (action_icons s) = []) = (errors s = 0)"
  "(by_class ''codicon codicon-warning'' (action_icons s) = []) = (warnings s = 0)"
  by (simp_all add: action_icons_def spec_badge_def)

lemma by_class_error_indicator:
  "concat (map (by_class ''action-icon'') (error_indicator md)) = []"
  "concat (map (by_class ''action-icons'') (error_indicator md)) = []"
  "concat (map (by_class ''action-duration'') (error_indicator md)) = []"
  "concat (map (by_class ''action-selector'') (error_indicator md)) = []"
  "concat (map (by_class ''codicon codicon-error'') (error_indicator md)) = []"
  "concat (map (by_class ''codicon codicon-warning'') (error_indicator md)) = []"
  by (simp_all add: error_indicator_def del: concat_eq_Nil_conv split: option.splits)

lemma by_class_row:
  assumes "''action-entry'' @ (if Some action = selected then '' selected'' else '''')
             @ (if Some action = highlighted then '' highlighted'' else '''') \<noteq> c"
  shows "by_class c (ActionListItem env st action highlighted selected language) =
           by_class c (action_title env (metadata (st action)) language)
           @ by_class c (action_duration env (metadata (st action)))
           @ by_class c (action_icons (stats env (st action)))
           @ concat (map (by_class c) (error_indicator (metadata (st action))))"
  using assms unfolding ActionListItem_def Let_def by simp

text \<open>
  C4. The pointer-leave handler of a row calls \<open>onHighlighted(undefined)\<close> when the row's
  item is the highlighted one, by identity, and makes no call otherwise; so leaving a row
  after the highlight moved to another row, even one with the same contents, clears
  nothing.
\<close>

theorem pointer_leave_guard:
  "handler ''onMouseLeave'' (ActionListItem env st action highlighted selected language) =
     (if highlighted = Some action then [Call_onHighlighted None] else [])"
  by (simp add: ActionListItem_def handler_def Let_def)

text \<open>
  C5. In a row the badges are, in order, the one for errors and the one for warnings; each
  is left out when its count is zero and shows its count otherwise. The row has an error
  icon exactly when the error count is not zero, and a warning icon exactly when the
  warning count is not zero.
\<close>

theorem badges_follow_counts:
  "by_class ''action-icon'' (ActionListItem env st action highlighted selected language) =
     spec_badge ''codicon codicon-error'' (errors (stats env (st action)))
     @ spec_badge ''codicon codicon-warning'' (warnings (stats env (st action)))
   \<and> (by_class ''codicon codicon-error''
         (ActionListItem env st action highlighted selected language) = [])
       = (errors (stats env (st action)) = 0)
   \<and> (by_class ''codicon codicon-warning''
         (ActionListItem env st action highlighted selected language) = [])
       = (warnings (stats env (st action)) = 0)"
proof -
  have "by_class ''action-icon'' (ActionListItem env st action highlighted selected language) =
     spec_badge ''codicon codicon-error'' (errors (stats env (st action)))
     @ spec_badge ''codicon codicon-warning'' (warnings (stats env (st action)))"
    using row_class_name [of action selected highlighted]
    by (subst by_class_row)
       (simp_all add: by_class_action_title by_class_action_duration by_class_action_icons
          by_class_error_indicator)
  moreover have "(by_class ''codicon codicon-error''
         (ActionListItem env st action highlighted selected language) = [])
       = (errors (stats env (st action)) = 0)"
    using row_class_name [of action selected highlighted]
    by (subst by_class_row)
       (simp_all add: by_class_action_title by_class_action_duration by_class_action_icons
          by_class_error_indicator)
  moreover have "(by_class ''codicon codicon-warning''
         (ActionListItem env st action highlighted selected language) = [])
       = (warnings (stats env (st action)) = 0)"
    using row_class_name [of action selected highlighted]
    by (subst by_class_row)
       (simp_all add: by_class_action_title by_class_action_duration by_class_action_icons
          by_class_error_indicator)
  ultimately show ?thesis by simp
qed

lemma by_class_action_selector:
  "by_class ''action-selector'' (action_title env md language) =
     (case locator env md language of
        None \<Rightarrow> []
      | Some l \<Rightarrow>
          if l = [] then []
          else [Node ''div'' ''action-selector'' [(''title'', l)] [] [Text l]])"
  by (simp add: action_title_def del: concat_eq_Nil_conv split: option.splits)

lemma locator_spec:
  assumes "language \<noteq> Some ''''"
  shows "locator env md language =
           (case selector (params md) of
              None \<Rightarrow> None
            | Some sel \<Rightarrow> if sel = [] then None else Some (spec_locator env language sel))"
  using assms by (simp add: locator_def spec_locator_def split: option.splits)

lemma row_children:
  "child_nodes (ActionListItem env st action highlighted selected language) =
     [action_title env (metadata (st action)) language,
      action_duration env (metadata (st action)),
      action_icons (stats env (st action))]
     @ error_indicator (metadata (st action))"
  by (simp add: ActionListItem_def Let_def)

lemma row_click:
  "click (ActionListItem env st action highlighted selected language) (i # p) =
     (if i < length (child_nodes (ActionListItem env st action highlighted selected language))
      then click (child_nodes (ActionListItem env st action highlighted selected language) ! i) p
      else [])
     @ [Call_onSelected (Some action)]"
  by (simp add: ActionListItem_def Let_def handler_def)

text \<open>
  C6, as the code has it. The duration shown is the formatter applied to the end time
  minus the start time, subtracted as the language subtracts numbers, when the end time
  is present and truthy, that is neither a zero nor not a number; it is the label
  \<open>Timed Out\<close> when the end time is absent, a zero, or not a number.
\<close>

theorem duration_text:
  "map child_nodes
     (by_class ''action-duration'' (ActionListItem env st action highlighted selected language)) =
     [[Text (case endTime (metadata (st action)) of
               None \<Rightarrow> ''Timed Out''
             | Some e \<Rightarrow>
                 if e = Finite 0 \<or> e = NegZero \<or> e = NaN then ''Timed Out''
                 else msToString env (number_minus env e (startTime (metadata (st action)))))]]"
proof -
  have "by_class ''action-duration'' (ActionListItem env st action highlighted selected language) =
          [action_duration env (metadata (st action))]"
    using row_class_name [of action selected highlighted]
    by (subst by_class_row)
       (simp_all add: by_class_action_title by_class_action_duration by_class_action_icons
          by_class_error_indicator)
  then show ?thesis
    by (auto simp: action_duration_def truthy_number_def split: option.splits)
qed

text \<open>
  The claim of C6 as written fails when the end time is present and zero: the label is
  shown, not the formatted duration.
\<close>

theorem duration_present_counterexample:
  "endTime (metadata (example_store 2)) = Some (Finite 0)
   \<and> map child_nodes
        (by_class ''action-duration'' (ActionListItem example_env example_store 2 None None None))
      = [[Text ''Timed Out'']]
   \<and> msToString example_env
        (number_minus example_env (Finite 0) (startTime (metadata (example_store 2))))
      = ''0''"
proof -
  have "by_class ''action-duration'' (ActionListItem example_env example_store 2 None None None) =
          [action_duration example_env (metadata (example_store 2))]"
    using row_class_name [of 2 None None]
    by (subst by_class_row)
       (simp_all add: by_class_action_title by_class_action_duration by_class_action_icons
          by_class_error_indicator)
  then show ?thesis
    by (simp add: action_duration_def truthy_number_def example_store_def example_env_def
        example_msToString_def example_minus_def)
qed

text \<open>
  C7, as the code has it. With a language that is not supplied or is not the empty string:
  a row has a locator annotation when its selector is present and not empty and the
  generator's result is not empty; the annotation is then the generator's result for the
  language supplied, or for \<open>javascript\<close> when none is supplied, and the selector. A row
  whose selector is absent or empty has no annotation.
\<close>

theorem locator_annotation:
  assumes "language \<noteq> Some ''''"
  shows "by_class ''action-selector''
           (ActionListItem env st action highlighted selected language) =
           (case selector (params (metadata (st action))) of
              None \<Rightarrow> []
            | Some sel \<Rightarrow>
                if sel = [] \<or> spec_locator env language sel = [] then []
                else [Node ''div'' ''action-selector''
                        [(''title'', spec_locator env language sel)] []
                        [Text (spec_locator env language sel)]])"
proof -
  have "by_class ''action-selector''
          (ActionListItem env st action highlighted selected language) =
        by_class ''action-selector'' (action_title env (metadata (st action)) language)"
    using row_class_name [of action selected highlighted]
    by (subst by_class_row)
       (simp_all add: by_class_action_duration by_class_action_icons by_class_error_indicator)
  then show ?thesis
    by (simp add: by_class_action_selector locator_spec [OF assms] split: option.splits)
qed

theorem locator_annotation_witness:
  "Some ''python'' \<noteq> Some ''''
   \<and> selector (params (metadata (example_store 1))) = Some ''button.submit''
   \<and> by_class ''action-selector''
        (ActionListItem example_env example_store 1 None None (Some ''python'')) =
      [Node ''div'' ''action-selector''
         [(''title'', asLocator example_env ''python'' ''button.submit'')] []
         [Text (asLocator example_env ''python'' ''button.submit'')]]
   \<and> by_class ''action-selector''
        (ActionListItem example_env example_store 0 None None (Some ''python'')) = []"
proof -
  have a: "Some ''python'' \<noteq> Some ''''"
    by simp
  show ?thesis
    using locator_annotation [OF a, of example_env example_store 1 None None]
      locator_annotation [OF a, of example_env example_store 0 None None]
    by (simp add: example_store_def example_env_def example_asLocator_def spec_locator_def)
qed

text \<open>
  The claim of C7 as written fails for an item whose selector is the empty string: the
  generator has a result for it, and the row has no annotation.
\<close>

theorem empty_selector_counterexample:
  "selector (params (metadata (example_store 2))) = Some ''''
   \<and> by_class ''action-selector''
        (ActionListItem example_env example_store 2 None None (Some ''python'')) = []
   \<and> asLocator example_env ''python'' '''' = ''python: ''"
proof -
  have "by_class ''action-selector''
          (ActionListItem example_env example_store 2 None None (Some ''python'')) =
        by_class ''action-selector''
          (action_title example_env (metadata (example_store 2)) (Some ''python''))"
    using row_class_name [of 2 None None]
    by (subst by_class_row)
       (simp_all add: by_class_action_duration by_class_action_icons by_class_error_indicator)
  then show ?thesis
    by (simp add: by_class_action_selector locator_def example_store_def example_env_def
        example_asLocator_def)
qed

text \<open>Clicks inside the icon area: the badges and what they contain have no handler.\<close>

lemma click_leaf:
  "click (Text s) p = []"
  "click (Number n) p = []"
  by (cases p; simp add: handler_def)+

lemma click_icon: "click (Node t c as [] []) p = []"
  by (cases p) (simp_all add: handler_def)

lemma click_icon_value: "click (Node t c as [] [Number n]) p = []"
  by (cases p) (simp_all add: handler_def click_leaf)

lemma click_badge: "v \<in> set (spec_badge icon n) \<Longrightarrow> click v p = []"
proof (cases p)
  case Nil
  assume "v \<in> set (spec_badge icon n)"
  with Nil show ?thesis
    by (auto simp: spec_badge_def handler_def split: if_splits)
next
  case (Cons i q)
  assume "v \<in> set (spec_badge icon n)"
  then have v: "v = Node ''div'' ''action-icon'' [] []
                      [Node ''span'' icon [] [] [],
                       Node ''span'' ''action-icon-value'' [] [] [Number n]]"
    by (auto simp: spec_badge_def split: if_splits)
  have "i = 0 \<or> i = 1 \<or> 2 \<le> i"
    by arith
  then show ?thesis
    unfolding v Cons
    by (auto simp: handler_def click_icon click_icon_value)
qed

lemma action_icons_children:
  "child_nodes (action_icons s) =
     spec_badge ''codicon codicon-error'' (errors s)
     @ spec_badge ''codicon codicon-warning'' (warnings s)"
  by (simp add: action_icons_def spec_badge_def)

lemma click_action_icons: "click (action_icons s) p = [Call_setSelectedTab ''console'']"
proof (cases p)
  case Nil
  then show ?thesis by (simp add: action_icons_def handler_def)
next
  case (Cons i q)
  have inner: "click (child_nodes (action_icons s) ! i) q = []"
    if "i < length (child_nodes (action_icons s))"
  proof -
    from that have "child_nodes (action_icons s) ! i \<in> set (child_nodes (action_icons s))"
      by (rule nth_mem)
    then show ?thesis
      by (auto simp: action_icons_children dest: click_badge)
  qed
  have "click (action_icons s) (i # q) =
          (if i < length (child_nodes (action_icons s))
           then click (child_nodes (action_icons s) ! i) q else [])
          @ [Call_setSelectedTab ''console'']"
    by (simp add: action_icons_def handler_def)
  with inner Cons show ?thesis by simp
qed

text \<open>
  C8, as the code has it. The third child of a row is the icon area. A click on it, or on
  a badge, an icon or a count inside it (the targets whose path from the row starts with
  that child), calls \<open>setSelectedTab\<close> with \<open>console\<close> and then, since the click bubbles
  to the row, \<open>onSelected\<close> with the row's item.
\<close>

theorem icon_click:
  "by_class ''action-icons'' (ActionListItem env st action highlighted selected language) =
     [child_nodes (ActionListItem env st action highlighted selected language) ! 2]
   \<and> click (ActionListItem env st action highlighted selected language) (2 # p) =
       [Call_setSelectedTab ''console'', Call_onSelected (Some action)]"
proof -
  have icons: "child_nodes (ActionListItem env st action highlighted selected language) ! 2 =
                 action_icons (stats env (st action))"
    by (simp add: row_children)
  have "by_class ''action-icons'' (ActionListItem env st action highlighted selected language) =
          [action_icons (stats env (st action))]"
    using row_class_name [of action selected highlighted]
    by (subst by_class_row)
       (simp_all add: by_class_action_title by_class_action_duration by_class_action_icons
          by_class_error_indicator)
  moreover have "2 < length (child_nodes (ActionListItem env st action highlighted selected language))"
    by (simp add: row_children)
  ultimately show ?thesis
    by (simp add: row_click icons click_action_icons)
qed

text \<open>
  The claim of C8 as written fails: in the example list, where the first item is
  selected, a click on the error count of the second row, and one on the icon area
  itself, ask for the second item to be selected.
\<close>

theorem icon_click_counterexample:
  "selectedAction example_props = Some 0
   \<and> click (ActionList example_env example_store example_props) [0, 1, 2, 0, 1] =
       [Call_setSelectedTab ''console'', Call_onSelected (Some 1)]
   \<and> click (ActionList example_env example_store example_props) [0, 1, 2] =
       [Call_setSelectedTab ''console'', Call_onSelected (Some 1)]"
proof -
  have "click (ActionListItem example_env example_store 1 (Some 1) (Some 0) (Some ''python'')) (2 # p)
          = [Call_setSelectedTab ''console'', Call_onSelected (Some 1)]" for p
    by (simp add: row_click row_children click_action_icons)
  then show ?thesis
    by (simp add: ActionList_def example_props_def handler_def)
qed

end
